theory Spec2Isabelle
  imports Complex_Main
begin

section \<open>Numbers and values of the host language\<close>

text \<open>
  The program is a single Python file, \<^verbatim>\<open>main.py\<close>: a grading function, an attendance
  percentage, and a handful of SQLite statements over four tables.

  Numbers are modelled by their values. A Python \<^verbatim>\<open>float\<close> is the rational it denotes, or one
  of the three non-finite values; an \<^verbatim>\<open>int\<close> that meets a float in an arithmetic operation is
  converted to that rational. Python's \<^verbatim>\<open>==\<close> compares \<^verbatim>\<open>0\<close> and \<^verbatim>\<open>0.0\<close> by value, and so does
  the model. Arithmetic on finite values is exact: the binary rounding of each operation of
  an IEEE double and its overflow are outside the model.
\<close>

datatype pyfloat = Fin rat | PInf | NInf | NaN

text \<open>\<^verbatim>\<open>a + b\<close> on floats.\<close>

fun f_add :: "pyfloat \<Rightarrow> pyfloat \<Rightarrow> pyfloat" where
  "f_add (Fin a) (Fin b) = Fin (a + b)"
| "f_add NaN _ = NaN"
| "f_add _ NaN = NaN"
| "f_add PInf NInf = NaN"
| "f_add NInf PInf = NaN"
| "f_add PInf _ = PInf"
| "f_add _ PInf = PInf"
| "f_add NInf _ = NInf"
| "f_add _ NInf = NInf"

text \<open>
  \<^verbatim>\<open>x / n\<close> for a float (or int) \<open>x\<close> and an int \<open>n\<close>. Python raises ZeroDivisionError
  for \<open>n = 0\<close>; both uses in the program are guarded so that \<open>n\<close> is positive.
\<close>

fun f_div_int :: "pyfloat \<Rightarrow> int \<Rightarrow> pyfloat" where
  "f_div_int (Fin a) n = Fin (a / of_int n)"
| "f_div_int NaN n = NaN"
| "f_div_int PInf n = (if 0 \<le> n then PInf else NInf)"
| "f_div_int NInf n = (if 0 \<le> n then NInf else PInf)"

text \<open>\<^verbatim>\<open>x * k\<close> for a float \<open>x\<close> and an int \<open>k\<close>.\<close>

fun f_mul_int :: "pyfloat \<Rightarrow> int \<Rightarrow> pyfloat" where
  "f_mul_int (Fin a) k = Fin (a * of_int k)"
| "f_mul_int NaN k = NaN"
| "f_mul_int PInf k = (if k = 0 then NaN else if 0 < k then PInf else NInf)"
| "f_mul_int NInf k = (if k = 0 then NaN else if 0 < k then NInf else PInf)"

text \<open>\<^verbatim>\<open>x >= k\<close> for a float \<open>x\<close> and an int \<open>k\<close>; every comparison with NaN is false.\<close>

fun f_ge :: "pyfloat \<Rightarrow> int \<Rightarrow> bool" where
  "f_ge (Fin a) k = (of_int k \<le> a)"
| "f_ge PInf k = True"
| "f_ge NInf k = False"
| "f_ge NaN k = False"

text \<open>
  \<^verbatim>\<open>round(x, ndigits)\<close>: Python rounds to the nearest multiple of \<open>10 ^ - ndigits\<close> and, on a
  tie, to the one whose last digit is even. Non-finite values round to themselves when
  \<^verbatim>\<open>ndigits\<close> is given.
\<close>

definition round_half_even :: "rat \<Rightarrow> int" where
  "round_half_even x =
     (let f = \<lfloor>x\<rfloor>; d = x - of_int f
      in if d < 1 / 2 then f
         else if 1 / 2 < d then f + 1
         else if even f then f else f + 1)"

definition py_round :: "rat \<Rightarrow> nat \<Rightarrow> rat" where
  "py_round x ndigits = of_int (round_half_even (x * 10 ^ ndigits)) / 10 ^ ndigits"

fun f_round :: "pyfloat \<Rightarrow> nat \<Rightarrow> pyfloat" where
  "f_round (Fin a) ndigits = Fin (py_round a ndigits)"
| "f_round x ndigits = x"

text \<open>
  The values a mark or a presence flag can be: \<^verbatim>\<open>None\<close>, a bool, an int, a float or a
  string (of ASCII characters).
\<close>

datatype pyval = PNone | PBool bool | PInt int | PFloat pyfloat | PStr string

text \<open>Truthiness, as \<^verbatim>\<open>x if c else y\<close> tests it.\<close>

fun truthy :: "pyval \<Rightarrow> bool" where
  "truthy PNone = False"
| "truthy (PBool b) = b"
| "truthy (PInt i) = (i \<noteq> 0)"
| "truthy (PFloat x) = (x \<noteq> Fin 0)"
| "truthy (PStr s) = (s \<noteq> [])"

subsection \<open>The builtin \<^verbatim>\<open>float\<close>\<close>

text \<open>
  \<^verbatim>\<open>float(s)\<close> on a string: underscores are removed where they stand between two digits
  (anywhere else they are an error), white space (blank, tab, newline, vertical tab, form
  feed, carriage return) is stripped from both ends, and what is
  left must be an optional sign followed by \<^verbatim>\<open>inf\<close>, \<^verbatim>\<open>infinity\<close> or \<^verbatim>\<open>nan\<close> in any case, or by
  a decimal number with an optional exponent. \<open>None\<close> stands for the ValueError.
\<close>

definition is_digit :: "char \<Rightarrow> bool" where
  "is_digit c \<longleftrightarrow> c \<in> set ''0123456789''"

definition is_space :: "char \<Rightarrow> bool" where
  "is_space c \<longleftrightarrow> (let n = (of_char c :: nat) in n = 32 \<or> (9 \<le> n \<and> n \<le> 13))"

definition lower_char :: "char \<Rightarrow> char" where
  "lower_char c = (let n = (of_char c :: nat) in if 65 \<le> n \<and> n \<le> 90 then char_of (n + 32) else c)"

fun strip_underscores :: "char \<Rightarrow> string \<Rightarrow> string option" where
  "strip_underscores prev [] = (if prev = CHR ''_'' then None else Some [])"
| "strip_underscores prev (c # cs) =
     (if c = CHR ''_'' then (if is_digit prev then strip_underscores c cs else None)
      else if prev = CHR ''_'' \<and> \<not> is_digit c then None
      else map_option ((#) c) (strip_underscores c cs))"

definition strip :: "string \<Rightarrow> string" where
  "strip s = rev (dropWhile is_space (rev (dropWhile is_space s)))"

definition digits_value :: "string \<Rightarrow> nat" where
  "digits_value ds = foldl (\<lambda>a c. 10 * a + (of_char c - 48)) 0 ds"

text \<open>The value of the digits \<open>ip\<close> before the point, \<open>fp\<close> after it, times ten to the \<open>e\<close>.\<close>

definition decimal_value :: "string \<Rightarrow> string \<Rightarrow> int \<Rightarrow> rat" where
  "decimal_value ip fp e =
     (let m = of_nat (digits_value (ip @ fp)) / 10 ^ length fp
      in if 0 \<le> e then m * 10 ^ nat e else m / 10 ^ nat (- e))"

definition parse_exponent :: "string \<Rightarrow> int option" where
  "parse_exponent s =
     (let (neg, ds) = (case s of
                         c # t \<Rightarrow> if c = CHR ''-'' then (True, t)
                                  else if c = CHR ''+'' then (False, t) else (False, s)
                       | [] \<Rightarrow> (False, s))
      in if ds = [] then None
         else if list_all is_digit ds
         then Some (if neg then - int (digits_value ds) else int (digits_value ds))
         else None)"

definition parse_unsigned :: "string \<Rightarrow> pyfloat option" where
  "parse_unsigned s =
     (let low = map lower_char s
      in if low = ''inf'' \<or> low = ''infinity'' then Some PInf
         else if low = ''nan'' then Some NaN
         else
           let ip = takeWhile is_digit s;
               r1 = dropWhile is_digit s;
               (fp, r2) = (case r1 of
                             c # t \<Rightarrow> if c = CHR ''.''
                                      then (takeWhile is_digit t, dropWhile is_digit t)
                                      else ([], r1)
                           | [] \<Rightarrow> ([], r1))
           in if ip = [] \<and> fp = [] then None
              else (case r2 of
                      [] \<Rightarrow> Some (Fin (decimal_value ip fp 0))
                    | c # t \<Rightarrow>
                        if c = CHR ''e'' \<or> c = CHR ''E''
                        then map_option (\<lambda>e. Fin (decimal_value ip fp e)) (parse_exponent t)
                        else None))"

fun f_neg :: "pyfloat \<Rightarrow> pyfloat" where
  "f_neg (Fin a) = Fin (- a)"
| "f_neg PInf = NInf"
| "f_neg NInf = PInf"
| "f_neg NaN = NaN"

definition float_of_string :: "string \<Rightarrow> pyfloat option" where
  "float_of_string s =
     (case strip_underscores (CHR 0x00) s of
        None \<Rightarrow> None
      | Some u \<Rightarrow>
          (case strip u of
             [] \<Rightarrow> None
           | c # t \<Rightarrow>
               if c = CHR ''-'' then map_option f_neg (parse_unsigned t)
               else if c = CHR ''+'' then parse_unsigned t
               else parse_unsigned (c # t)))"

text \<open>
  \<^verbatim>\<open>float(m)\<close>; \<open>None\<close> stands for the exception the call raises (TypeError for \<^verbatim>\<open>None\<close>,
  ValueError for a string that is not a number). Magnitudes are unbounded here: the
  OverflowError of an int beyond the range of a double, and the infinity a decimal string
  beyond that range denotes, belong to the overflow that the model leaves out.
\<close>

fun py_float :: "pyval \<Rightarrow> pyfloat option" where
  "py_float PNone = None"
| "py_float (PBool b) = Some (Fin (if b then 1 else 0))"
| "py_float (PInt i) = Some (Fin (of_int i))"
| "py_float (PFloat x) = Some x"
| "py_float (PStr s) = float_of_string s"

section \<open>Grading logic\<close>

text \<open>
  The loop of \<^verbatim>\<open>calculate_total_percentage_gpa_grade\<close>:
  \<^verbatim>\<open>
    for _, m in marks_list:
        try:
            total += float(m)
        except:
            total += 0
  \<close>
\<close>

fun total_loop :: "pyfloat \<Rightarrow> (string \<times> pyval) list \<Rightarrow> pyfloat" where
  "total_loop tot [] = tot"
| "total_loop tot ((_, m) # rest) =
     total_loop (case py_float m of
                   Some x \<Rightarrow> f_add tot x
                 | None \<Rightarrow> f_add tot (Fin 0)) rest"

definition calculate_total_percentage_gpa_grade ::
  "(string \<times> pyval) list \<Rightarrow> pyfloat \<times> int \<times> pyfloat \<times> rat \<times> string" where
  "calculate_total_percentage_gpa_grade marks_list =
     (if marks_list = [] then (Fin 0, 0, Fin 0, 0, ''N/A'')
      else
        let total = total_loop (Fin 0) marks_list;
            max_total = 100 * int (length marks_list);
            percentage = (if max_total > 0
                          then f_round (f_mul_int (f_div_int total max_total) 100) 2
                          else Fin 0)
        in if f_ge percentage 90 then (total, max_total, percentage, 4, ''A+'')
           else if f_ge percentage 80 then (total, max_total, percentage, 37 / 10, ''A'')
           else if f_ge percentage 70 then (total, max_total, percentage, 3, ''B'')
           else if f_ge percentage 60 then (total, max_total, percentage, 2, ''C'')
           else if f_ge percentage 50 then (total, max_total, percentage, 1, ''D'')
           else (total, max_total, percentage, 0, ''F''))"





section \<open>The database\<close>

text \<open>
  The four tables of \<^verbatim>\<open>init_db\<close>, each a list of rows in the order of insertion. Every
  table has \<^verbatim>\<open>id INTEGER PRIMARY KEY AUTOINCREMENT\<close>: a new row gets an id one larger than
  the largest the table ever held, which SQLite remembers in \<^verbatim>\<open>sqlite_sequence\<close> (the
  \<open>seq_\<close> fields). Foreign keys are declared but the program never turns their enforcement
  on, so no statement fails on them. Each function commits what it changed before it
  returns; a statement that raises changes nothing.
\<close>

record student_row =
  s_id :: int
  s_student_id :: string
  s_name :: string
  s_klass :: string

record subject_row =
  sj_id :: int
  sj_name :: string

record mark_row =
  m_id :: int
  m_student_db_id :: int
  m_subject_db_id :: int
  m_marks :: rat

record attendance_row =
  a_id :: int
  a_student_db_id :: int
  a_date :: string
  a_present :: int

record store =
  tbl_students :: "student_row list"
  tbl_subjects :: "subject_row list"
  tbl_marks :: "mark_row list"
  tbl_attendance :: "attendance_row list"
  seq_students :: int
  seq_subjects :: int
  seq_marks :: int
  seq_attendance :: int

datatype db_error = IntegrityError

definition next_rowid :: "int \<Rightarrow> int list \<Rightarrow> int" where
  "next_rowid seq ids = max seq (fold max ids 0) + 1"

text \<open>The database file after \<^verbatim>\<open>init_db\<close> has created it.\<close>

definition init_db :: store where
  "init_db = \<lparr>tbl_students = [], tbl_subjects = [], tbl_marks = [], tbl_attendance = [],
              seq_students = 0, seq_subjects = 0, seq_marks = 0, seq_attendance = 0\<rparr>"

text \<open>
  \<^verbatim>\<open>INSERT INTO students\<close>: \<^verbatim>\<open>student_id\<close> is UNIQUE, so a code some row already has
  raises sqlite3.IntegrityError. Returns \<^verbatim>\<open>lastrowid\<close>.
\<close>

definition add_student_to_db ::
  "store \<Rightarrow> string \<Rightarrow> string \<Rightarrow> string \<Rightarrow> db_error + (int \<times> store)" where
  "add_student_to_db s student_id name klass =
     (if list_ex (\<lambda>r. s_student_id r = student_id) (tbl_students s) then Inl IntegrityError
      else
        let i = next_rowid (seq_students s) (map s_id (tbl_students s))
        in Inr (i, s\<lparr>tbl_students := tbl_students s @
                        [\<lparr>s_id = i, s_student_id = student_id, s_name = name, s_klass = klass\<rparr>],
                      seq_students := i\<rparr>))"

text \<open>
  \<^verbatim>\<open>UPDATE students SET student_id=?, name=?, klass=? WHERE id=?\<close>: the rows with that id
  are rewritten; the statement raises when a rewritten row would share its code with
  another row. With no row of that id nothing is rewritten and nothing is raised.
\<close>

definition update_student_in_db ::
  "store \<Rightarrow> int \<Rightarrow> string \<Rightarrow> string \<Rightarrow> string \<Rightarrow> db_error + store" where
  "update_student_in_db s db_id student_id name klass =
     (if list_ex (\<lambda>r. s_id r = db_id) (tbl_students s) \<and>
         list_ex (\<lambda>r. s_id r \<noteq> db_id \<and> s_student_id r = student_id) (tbl_students s)
      then Inl IntegrityError
      else Inr (s\<lparr>tbl_students :=
                    map (\<lambda>r. if s_id r = db_id
                              then r\<lparr>s_student_id := student_id, s_name := name, s_klass := klass\<rparr>
                              else r) (tbl_students s)\<rparr>))"

definition delete_student_from_db :: "store \<Rightarrow> int \<Rightarrow> store" where
  "delete_student_from_db s db_id =
     s\<lparr>tbl_students := filter (\<lambda>r. s_id r \<noteq> db_id) (tbl_students s),
       tbl_marks := filter (\<lambda>r. m_student_db_id r \<noteq> db_id) (tbl_marks s),
       tbl_attendance := filter (\<lambda>r. a_student_db_id r \<noteq> db_id) (tbl_attendance s)\<rparr>"

text \<open>\<^verbatim>\<open>INSERT OR IGNORE INTO subjects\<close>: a name that exists is skipped without an error.\<close>

definition add_subject_to_db :: "store \<Rightarrow> string \<Rightarrow> store" where
  "add_subject_to_db s name =
     (if list_ex (\<lambda>r. sj_name r = name) (tbl_subjects s) then s
      else
        let i = next_rowid (seq_subjects s) (map sj_id (tbl_subjects s))
        in s\<lparr>tbl_subjects := tbl_subjects s @ [\<lparr>sj_id = i, sj_name = name\<rparr>],
             seq_subjects := i\<rparr>)"

text \<open>
  \<^verbatim>\<open>set_mark_in_db\<close>: \<^verbatim>\<open>fetchone()\<close> gives the first row of the pair, if any; that row's
  id selects what the UPDATE rewrites, and with no row the mark is inserted.
\<close>

definition set_mark_in_db :: "store \<Rightarrow> int \<Rightarrow> int \<Rightarrow> rat \<Rightarrow> store" where
  "set_mark_in_db s student_db_id subject_db_id marks =
     (case find (\<lambda>r. m_student_db_id r = student_db_id \<and> m_subject_db_id r = subject_db_id)
             (tbl_marks s) of
        Some row \<Rightarrow>
          s\<lparr>tbl_marks := map (\<lambda>r. if m_id r = m_id row then r\<lparr>m_marks := marks\<rparr> else r)
                             (tbl_marks s)\<rparr>
      | None \<Rightarrow>
          let i = next_rowid (seq_marks s) (map m_id (tbl_marks s))
          in s\<lparr>tbl_marks := tbl_marks s @
                  [\<lparr>m_id = i, m_student_db_id = student_db_id,
                    m_subject_db_id = subject_db_id, m_marks = marks\<rparr>],
               seq_marks := i\<rparr>)"

definition delete_marks_for_subject :: "store \<Rightarrow> int \<Rightarrow> store" where
  "delete_marks_for_subject s subject_db_id =
     s\<lparr>tbl_marks := filter (\<lambda>r. m_subject_db_id r \<noteq> subject_db_id) (tbl_marks s)\<rparr>"

text \<open>\<^verbatim>\<open>add_attendance_to_db\<close> writes \<^verbatim>\<open>1 if present else 0\<close>.\<close>

definition add_attendance_to_db :: "store \<Rightarrow> int \<Rightarrow> string \<Rightarrow> pyval \<Rightarrow> store" where
  "add_attendance_to_db s student_db_id date_str present =
     (let i = next_rowid (seq_attendance s) (map a_id (tbl_attendance s))
      in s\<lparr>tbl_attendance := tbl_attendance s @
              [\<lparr>a_id = i, a_student_db_id = student_db_id, a_date = date_str,
                a_present = (if truthy present then 1 else 0)\<rparr>],
           seq_attendance := i\<rparr>)"

text \<open>
  \<^verbatim>\<open>get_attendance_percent_from_db\<close>: COUNT(*) and SUM(present) over the student's rows.
  The division is only reached with a count that is not zero; \<^verbatim>\<open>or 0\<close> stands in for a sum
  that is NULL, which the sum of at least one integer is not, and maps every number to
  itself.
\<close>

definition get_attendance_percent_from_db :: "store \<Rightarrow> int \<Rightarrow> rat" where
  "get_attendance_percent_from_db s student_db_id =
     (let rows = filter (\<lambda>r. a_student_db_id r = student_db_id) (tbl_attendance s);
          total = int (length rows)
      in if total = 0 then 0
         else
           let present = sum_list (map a_present rows)
           in py_round ((of_int present / of_int total) * 100) 2)"

subsection \<open>The two statements the window issues itself\<close>

datatype outcome = Showerror string | Showinfo string | Returned | Raised_IndexError

text \<open>
  \<^verbatim>\<open>UPDATE subjects SET name=? WHERE id=?\<close>, as \<^verbatim>\<open>edit_subject\<close> executes it: \<^verbatim>\<open>name\<close> is
  UNIQUE.
\<close>

definition rename_subject_sql :: "store \<Rightarrow> string \<Rightarrow> int \<Rightarrow> db_error + store" where
  "rename_subject_sql s new_name subj_id =
     (if list_ex (\<lambda>r. sj_id r = subj_id) (tbl_subjects s) \<and>
         list_ex (\<lambda>r. sj_id r \<noteq> subj_id \<and> sj_name r = new_name) (tbl_subjects s)
      then Inl IntegrityError
      else Inr (s\<lparr>tbl_subjects :=
                    map (\<lambda>r. if sj_id r = subj_id then r\<lparr>sj_name := new_name\<rparr> else r)
                      (tbl_subjects s)\<rparr>))"

text \<open>
  \<^verbatim>\<open>StudentGradingApp.edit_subject\<close>. \<open>subjects\<close> is the list \<^verbatim>\<open>self.subjects\<close> of (id, name)
  the window last read, \<open>sel\<close> the list box's selection, \<open>answer\<close> what the rename dialog
  returned (\<open>None\<close> when it was cancelled). The result is what the user is shown and the
  database afterwards; redrawing the lists only reads.
\<close>

definition edit_subject ::
  "store \<Rightarrow> (int \<times> string) list \<Rightarrow> nat list \<Rightarrow> string option \<Rightarrow> outcome \<times> store" where
  "edit_subject s subjects sel answer =
     (case sel of
        [] \<Rightarrow> (Showerror ''Select a subject to edit.'', s)
      | index # _ \<Rightarrow>
          if length subjects \<le> index then (Raised_IndexError, s)
          else
            let (subj_id, old_name) = subjects ! index
            in (case answer of
                  None \<Rightarrow> (Returned, s)
                | Some new_name \<Rightarrow>
                    if new_name = [] then (Returned, s)
                    else (case rename_subject_sql s new_name subj_id of
                            Inl IntegrityError \<Rightarrow> (Showerror ''Subject name already exists.'', s)
                          | Inr s' \<Rightarrow>
                              (Showinfo (''Subject renamed to '' @ [CHR 0x27] @ new_name @
                                         [CHR 0x27] @ ''.''), s'))))"

text \<open>\<^verbatim>\<open>StudentGradingApp.delete_subject\<close>; \<open>confirmed\<close> is the answer to the yes/no box.\<close>

definition delete_subject ::
  "store \<Rightarrow> (int \<times> string) list \<Rightarrow> nat list \<Rightarrow> bool \<Rightarrow> outcome \<times> store" where
  "delete_subject s subjects sel confirmed =
     (case sel of
        [] \<Rightarrow> (Showerror ''Select a subject to delete.'', s)
      | index # _ \<Rightarrow>
          if length subjects \<le> index then (Raised_IndexError, s)
          else
            let (subj_id, name) = subjects ! index
            in if \<not> confirmed then (Returned, s)
               else (Showinfo (''Subject '' @ [CHR 0x27] @ name @ [CHR 0x27] @ '' removed.''),
                     s\<lparr>tbl_subjects := filter (\<lambda>r. sj_id r \<noteq> subj_id) (tbl_subjects s),
                       tbl_marks := filter (\<lambda>r. m_subject_db_id r \<noteq> subj_id) (tbl_marks s)\<rparr>))"

subsection \<open>Histories\<close>

text \<open>
  Every place where the program writes to the database, as a call with its arguments. A
  call that raises leaves the database as it was.
\<close>

datatype call =
    Add_student string string string
  | Update_student int string string string
  | Delete_student int
  | Add_subject string
  | Set_mark int int rat
  | Delete_marks_for_subject int
  | Add_attendance int string pyval
  | Edit_subject "(int \<times> string) list" "nat list" "string option"
  | Delete_subject "(int \<times> string) list" "nat list" bool

fun perform :: "store \<Rightarrow> call \<Rightarrow> store" where
  "perform s (Add_student student_id name klass) =
     (case add_student_to_db s student_id name klass of Inl _ \<Rightarrow> s | Inr (_, s') \<Rightarrow> s')"
| "perform s (Update_student db_id student_id name klass) =
     (case update_student_in_db s db_id student_id name klass of Inl _ \<Rightarrow> s | Inr s' \<Rightarrow> s')"
| "perform s (Delete_student db_id) = delete_student_from_db s db_id"
| "perform s (Add_subject name) = add_subject_to_db s name"
| "perform s (Set_mark student_db_id subject_db_id v) =
     set_mark_in_db s student_db_id subject_db_id v"
| "perform s (Delete_marks_for_subject subject_db_id) =
     delete_marks_for_subject s subject_db_id"
| "perform s (Add_attendance student_db_id date_str present) =
     add_attendance_to_db s student_db_id date_str present"
| "perform s (Edit_subject subjects sel answer) = snd (edit_subject s subjects sel answer)"
| "perform s (Delete_subject subjects sel confirmed) =
     snd (delete_subject s subjects sel confirmed)"

text \<open>The database after a history of calls on a fresh file.\<close>

definition run :: "call list \<Rightarrow> store" where
  "run cs = foldl perform init_db cs"

text \<open>The stored marks of a (student, subject) pair, and the attendance flags of a student.\<close>

definition marks_of :: "store \<Rightarrow> int \<Rightarrow> int \<Rightarrow> rat list" where
  "marks_of s student subject =
     map m_marks (filter (\<lambda>r. m_student_db_id r = student \<and> m_subject_db_id r = subject)
                    (tbl_marks s))"

definition presence_of :: "store \<Rightarrow> int \<Rightarrow> int list" where
  "presence_of s student =
     map a_present (filter (\<lambda>r. a_student_db_id r = student) (tbl_attendance s))"

text \<open>A run of set-mark calls, and the value the last of them gave a pair.\<close>

definition set_marks :: "store \<Rightarrow> (int \<times> int \<times> rat) list \<Rightarrow> store" where
  "set_marks s ops = foldl (\<lambda>s (student, subject, v). set_mark_in_db s student subject v) s ops"

definition last_set :: "(int \<times> int \<times> rat) list \<Rightarrow> int \<Rightarrow> int \<Rightarrow> rat option" where
  "last_set ops student subject =
     map_option (\<lambda>(_, _, v). v)
       (find (\<lambda>(st, sb, _). st = student \<and> sb = subject) (rev ops))"

text \<open>
  Two properties of a database: the marks table has no two rows with one id and no two rows
  for one (student, subject) pair; every attendance row has 0 or 1 in \<^verbatim>\<open>present\<close>.
\<close>

definition marks_unique :: "store \<Rightarrow> bool" where
  "marks_unique s \<longleftrightarrow>
     distinct (map m_id (tbl_marks s)) \<and>
     distinct (map (\<lambda>r. (m_student_db_id r, m_subject_db_id r)) (tbl_marks s))"

definition presence_flags :: "store \<Rightarrow> bool" where
  "presence_flags s \<longleftrightarrow> list_all (\<lambda>r. a_present r = 0 \<or> a_present r = 1) (tbl_attendance s)"

section \<open>Properties of the grading logic\<close>








lemma round_half_even_lower: "of_int a \<le> x \<Longrightarrow> a \<le> round_half_even x"
proof -
  assume "of_int a \<le> x"
  then have "a \<le> \<lfloor>x\<rfloor>" by (simp add: le_floor_iff)
  then show ?thesis by (simp add: round_half_even_def Let_def)
qed

lemma round_half_even_upper: "x \<le> of_int b \<Longrightarrow> round_half_even x \<le> b"
proof -
  assume xb: "x \<le> of_int b"
  then have fb: "\<lfloor>x\<rfloor> \<le> b" by (simp add: floor_le_iff) 
  show ?thesis
  proof (cases "x = of_int \<lfloor>x\<rfloor>")
    case True
    then have "x - of_int \<lfloor>x\<rfloor> = 0" by simp
    then show ?thesis using fb by (simp add: round_half_even_def Let_def)
  next
    case False
    then have "of_int \<lfloor>x\<rfloor> < x" using of_int_floor_le [of x] by linarith
    then have "of_int \<lfloor>x\<rfloor> < (of_int b :: rat)" using xb by linarith
    then have "\<lfloor>x\<rfloor> < b" by simp
    then show ?thesis by (simp add: round_half_even_def Let_def)
  qed
qed

lemma py_round_bounds:
  assumes "0 \<le> x" and "x \<le> 100"
  shows "0 \<le> py_round x 2 \<and> py_round x 2 \<le> 100"
proof -
  have "of_int 0 \<le> x * 10 ^ 2" using assms by simp
  then have lo: "0 \<le> round_half_even (x * 10 ^ 2)" by (rule round_half_even_lower)
  have "x * 10 ^ 2 \<le> of_int 10000" using assms by simp
  then have hi: "round_half_even (x * 10 ^ 2) \<le> 10000" by (rule round_half_even_upper)
  from lo hi show ?thesis
    by (simp add: py_round_def divide_le_eq)
qed












text \<open>
  Claim C3. For the empty list the function returns (0, 0, 0, 0, "N/A").
\<close>

theorem aggregate_empty:
  "calculate_total_percentage_gpa_grade [] = (Fin 0, 0, Fin 0, 0, ''N/A'')"
  by (simp add: calculate_total_percentage_gpa_grade_def)



section \<open>Properties of the database functions\<close>

lemma fold_max_ge: "x \<in> set ids \<Longrightarrow> x \<le> fold max ids (a::int)"
proof (induction ids arbitrary: a)
  case Nil then show ?case by simp
next
  case (Cons y ys)
  have mono: "\<And>b. b \<le> fold max ys (b::int)"
  proof -
    fix b :: int show "b \<le> fold max ys b"
    proof (induction ys arbitrary: b)
      case Nil show ?case by simp
    next
      case (Cons z zs)
      have "max z b \<le> fold max zs (max z b)" by (rule Cons.IH)
      then show ?case by simp
    qed
  qed
  show ?case
  proof (cases "x = y")
    case True
    have "max y a \<le> fold max ys (max y a)" by (rule mono)
    then show ?thesis using True by simp
  next
    case False
    then have "x \<in> set ys" using Cons.prems by simp
    then show ?thesis using Cons.IH by simp
  qed
qed

lemma next_rowid_fresh: "next_rowid seq ids \<notin> set ids"
proof
  assume "next_rowid seq ids \<in> set ids"
  then have "next_rowid seq ids \<le> fold max ids 0" by (rule fold_max_ge)
  then show False by (simp add: next_rowid_def)
qed

lemma find_pair_None:
  "find (\<lambda>r. m_student_db_id r = st \<and> m_subject_db_id r = sb) rows = None \<Longrightarrow>
   (st, sb) \<notin> set (map (\<lambda>r. (m_student_db_id r, m_subject_db_id r)) rows)"
  by (auto simp: find_None_iff)

lemma map_update_marks_ids:
  "map m_id (map (\<lambda>r. if m_id r = i then r\<lparr>m_marks := v\<rparr> else r) rows) = map m_id rows"
  by (induction rows) auto

lemma map_update_marks_pairs:
  "map (\<lambda>r. (m_student_db_id r, m_subject_db_id r))
     (map (\<lambda>r. if m_id r = i then r\<lparr>m_marks := v\<rparr> else r) rows) =
   map (\<lambda>r. (m_student_db_id r, m_subject_db_id r)) rows"
  by (induction rows) auto

lemma marks_unique_set_mark: "marks_unique s \<Longrightarrow> marks_unique (set_mark_in_db s st sb v)"
proof (cases "find (\<lambda>r. m_student_db_id r = st \<and> m_subject_db_id r = sb) (tbl_marks s)")
  case None
  assume inv: "marks_unique s"
  have "(st, sb) \<notin> set (map (\<lambda>r. (m_student_db_id r, m_subject_db_id r)) (tbl_marks s))"
    using None by (rule find_pair_None)
  moreover have "next_rowid (seq_marks s) (map m_id (tbl_marks s)) \<notin> set (map m_id (tbl_marks s))"
    by (rule next_rowid_fresh)
  ultimately show ?thesis using inv None
    by (simp add: marks_unique_def set_mark_in_db_def Let_def)
next
  case (Some row)
  assume inv: "marks_unique s"
  then show ?thesis using Some
    by (simp add: marks_unique_def set_mark_in_db_def map_update_marks_ids map_update_marks_pairs
        del: map_map)
qed

lemma marks_unique_perform: "marks_unique s \<Longrightarrow> marks_unique (perform s c)"
proof (cases c)
  case (Add_student a b d)
  assume "marks_unique s"
  then show ?thesis using Add_student
    by (auto simp: add_student_to_db_def marks_unique_def Let_def)
next
  case (Update_student i a b d)
  assume "marks_unique s"
  then show ?thesis using Update_student
    by (auto simp: update_student_in_db_def marks_unique_def)
next
  case (Delete_student i)
  assume "marks_unique s"
  then show ?thesis using Delete_student
    by (simp add: delete_student_from_db_def marks_unique_def distinct_map_filter)
next
  case (Add_subject n)
  assume "marks_unique s"
  then show ?thesis using Add_subject
    by (simp add: add_subject_to_db_def marks_unique_def Let_def)
next
  case (Set_mark st sb v)
  assume "marks_unique s"
  then show ?thesis using Set_mark by (simp add: marks_unique_set_mark)
next
  case (Delete_marks_for_subject i)
  assume "marks_unique s"
  then show ?thesis using Delete_marks_for_subject
    by (simp add: delete_marks_for_subject_def marks_unique_def distinct_map_filter)
next
  case (Add_attendance i d p)
  assume "marks_unique s"
  then show ?thesis using Add_attendance
    by (simp add: add_attendance_to_db_def marks_unique_def Let_def)
next
  case (Edit_subject subjects sel answer)
  assume "marks_unique s"
  then show ?thesis using Edit_subject
    by (auto simp: edit_subject_def rename_subject_sql_def marks_unique_def
        split: list.splits option.splits prod.splits sum.splits db_error.splits)
next
  case (Delete_subject subjects sel confirmed)
  assume "marks_unique s"
  then show ?thesis using Delete_subject
    by (auto simp: delete_subject_def marks_unique_def distinct_map_filter
        split: list.splits prod.splits)
qed

lemma marks_unique_foldl: "marks_unique s \<Longrightarrow> marks_unique (foldl perform s cs)"
  by (induction cs arbitrary: s) (simp_all add: marks_unique_perform)

lemma marks_unique_run: "marks_unique (run cs)"
  unfolding run_def by (rule marks_unique_foldl) (simp add: marks_unique_def init_db_def)


lemma filter_key_single:
  "distinct (map f rows) \<Longrightarrow> row \<in> set rows \<Longrightarrow> filter (\<lambda>r. f r = f row) rows = [row]"
proof (induction rows)
  case Nil
  then show ?case by simp
next
  case (Cons a rows)
  show ?case
  proof (cases "a = row")
    case True
    have "\<forall>r\<in>set rows. f r \<noteq> f row" using Cons.prems(1) True by (auto simp: image_iff)
    then have "filter (\<lambda>r. f r = f row) rows = []" by (simp add: filter_empty_conv)
    then show ?thesis using True by simp
  next
    case False
    then have mem: "row \<in> set rows" using Cons.prems(2) by simp
    then have "f a \<noteq> f row" using Cons.prems(1) by auto
    moreover have "filter (\<lambda>r. f r = f row) rows = [row]"
      using Cons.IH Cons.prems(1) mem by simp
    ultimately show ?thesis by simp
  qed
qed

lemma filter_map_unchanged:
  "(\<And>r. r \<in> set rows \<Longrightarrow> P (g r) = P r) \<Longrightarrow>
   (\<And>r. r \<in> set rows \<Longrightarrow> P r \<Longrightarrow> g r = r) \<Longrightarrow>
   filter P (map g rows) = filter P rows"
  by (induction rows) auto

lemma find_pair_Some:
  assumes "find (\<lambda>r. m_student_db_id r = st \<and> m_subject_db_id r = sb) rows = Some row"
  shows "row \<in> set rows \<and> m_student_db_id row = st \<and> m_subject_db_id row = sb"
  using assms by (auto simp: find_Some_iff)

lemma marks_of_set_same:
  assumes inv: "marks_unique s"
  shows "marks_of (set_mark_in_db s st sb v) st sb = [v]"
proof (cases "find (\<lambda>r. m_student_db_id r = st \<and> m_subject_db_id r = sb) (tbl_marks s)")
  case None
  then have "filter (\<lambda>r. m_student_db_id r = st \<and> m_subject_db_id r = sb) (tbl_marks s) = []"
    by (auto simp: find_None_iff filter_empty_conv)
  then show ?thesis using None
    by (simp add: marks_of_def set_mark_in_db_def Let_def)
next
  case (Some row)
  let ?key = "\<lambda>r. (m_student_db_id r, m_subject_db_id r)"
  let ?upd = "\<lambda>r. if m_id r = m_id row then r\<lparr>m_marks := v\<rparr> else r"
  let ?P = "\<lambda>r. m_student_db_id r = st \<and> m_subject_db_id r = sb"
  from Some have row: "row \<in> set (tbl_marks s)" "m_student_db_id row = st" "m_subject_db_id row = sb"
    using find_pair_Some by blast+
  have "distinct (map ?key (tbl_marks s))" using inv by (simp add: marks_unique_def)
  then have "filter (\<lambda>r. ?key r = ?key row) (tbl_marks s) = [row]"
    using row(1) by (rule filter_key_single)
  then have single: "filter ?P (tbl_marks s) = [row]" using row by simp
  have "filter ?P (map ?upd (tbl_marks s)) = map ?upd (filter (?P \<circ> ?upd) (tbl_marks s))"
    by (simp add: filter_map)
  also have "?P \<circ> ?upd = ?P" by (auto simp: fun_eq_iff)
  finally have "filter ?P (map ?upd (tbl_marks s)) = [row\<lparr>m_marks := v\<rparr>]"
    using single by simp
  then show ?thesis using Some
    by (simp add: marks_of_def set_mark_in_db_def)
qed

lemma marks_of_set_other:
  assumes inv: "marks_unique s" and other: "st' \<noteq> st \<or> sb' \<noteq> sb"
  shows "marks_of (set_mark_in_db s st sb v) st' sb' = marks_of s st' sb'"
proof (cases "find (\<lambda>r. m_student_db_id r = st \<and> m_subject_db_id r = sb) (tbl_marks s)")
  case None
  then show ?thesis using other
    by (auto simp: marks_of_def set_mark_in_db_def Let_def)
next
  case (Some row)
  let ?upd = "\<lambda>r. if m_id r = m_id row then r\<lparr>m_marks := v\<rparr> else r"
  let ?P = "\<lambda>r. m_student_db_id r = st' \<and> m_subject_db_id r = sb'"
  from Some have row: "row \<in> set (tbl_marks s)" "m_student_db_id row = st" "m_subject_db_id row = sb"
    using find_pair_Some by blast+
  have ids: "distinct (map m_id (tbl_marks s))" using inv by (simp add: marks_unique_def)
  have same: "\<And>r. r \<in> set (tbl_marks s) \<Longrightarrow> ?P r \<Longrightarrow> ?upd r = r"
  proof -
    fix r assume r: "r \<in> set (tbl_marks s)" and P: "?P r"
    have "m_id r \<noteq> m_id row"
    proof
      assume "m_id r = m_id row"
      then have "r = row" using ids r row(1) by (meson distinct_map inj_onD)
      then show False using P row other by auto
    qed
    then show "?upd r = r" by simp
  qed
  have "filter ?P (map ?upd (tbl_marks s)) = filter ?P (tbl_marks s)"
    by (rule filter_map_unchanged) (auto simp: same)
  then show ?thesis using Some
    by (simp add: marks_of_def set_mark_in_db_def)
qed

lemma set_mark_overwrites:
  assumes "marks_of s st sb \<noteq> []"
  shows "length (tbl_marks (set_mark_in_db s st sb v)) = length (tbl_marks s)"
proof (cases "find (\<lambda>r. m_student_db_id r = st \<and> m_subject_db_id r = sb) (tbl_marks s)")
  case None
  then have "filter (\<lambda>r. m_student_db_id r = st \<and> m_subject_db_id r = sb) (tbl_marks s) = []"
    by (auto simp: find_None_iff filter_empty_conv)
  then show ?thesis using assms by (simp add: marks_of_def)
next
  case (Some row)
  then show ?thesis by (simp add: set_mark_in_db_def)
qed

lemma marks_of_at_most_one: "marks_unique s \<Longrightarrow> length (marks_of s st sb) \<le> 1"
proof -
  assume inv: "marks_unique s"
  let ?key = "\<lambda>r. (m_student_db_id r, m_subject_db_id r)"
  have d: "distinct (map ?key (tbl_marks s))" using inv by (simp add: marks_unique_def)
  have "length (filter (\<lambda>r. ?key r = (st, sb)) (tbl_marks s)) \<le> 1"
  proof (cases "\<exists>row\<in>set (tbl_marks s). ?key row = (st, sb)")
    case True
    then obtain row where row: "row \<in> set (tbl_marks s)" "?key row = (st, sb)" by blast
    have "filter (\<lambda>r. ?key r = ?key row) (tbl_marks s) = [row]"
      using d row(1) by (rule filter_key_single)
    then show ?thesis using row(2) by simp
  next
    case False
    then have "filter (\<lambda>r. ?key r = (st, sb)) (tbl_marks s) = []"
      by (auto simp: filter_empty_conv)
    then show ?thesis by simp
  qed
  then show ?thesis by (simp add: marks_of_def)
qed

lemma set_marks_snoc:
  "set_marks s (ops @ [(st, sb, v)]) = set_mark_in_db (set_marks s ops) st sb v"
  by (simp add: set_marks_def)

lemma marks_unique_set_marks: "marks_unique s \<Longrightarrow> marks_unique (set_marks s ops)"
  by (induction ops rule: rev_induct) (auto simp: set_marks_def marks_unique_set_mark)

lemma last_set_snoc:
  "last_set (ops @ [(st, sb, v)]) st' sb' =
     (if st = st' \<and> sb = sb' then Some v else last_set ops st' sb')"
  by (simp add: last_set_def)

lemma marks_of_set_marks:
  assumes inv: "marks_unique s"
  shows "marks_of (set_marks s ops) st sb =
           (case last_set ops st sb of Some v \<Rightarrow> [v] | None \<Rightarrow> marks_of s st sb)"
proof (induction ops rule: rev_induct)
  case Nil
  show ?case by (simp add: set_marks_def last_set_def)
next
  case (snoc op ops)
  obtain st' sb' v where op: "op = (st', sb', v)" by (cases op)
  have u: "marks_unique (set_marks s ops)" using inv by (rule marks_unique_set_marks)
  show ?case
  proof (cases "st' = st \<and> sb' = sb")
    case True
    then show ?thesis using op u
      by (simp add: set_marks_snoc last_set_snoc marks_of_set_same)
  next
    case False
    then have "st \<noteq> st' \<or> sb \<noteq> sb'" by auto
    then have "marks_of (set_mark_in_db (set_marks s ops) st' sb' v) st sb =
               marks_of (set_marks s ops) st sb"
      using u by (simp add: marks_of_set_other)
    moreover have "last_set (ops @ [op]) st sb = last_set ops st sb"
      using op False by (auto simp: last_set_snoc)
    ultimately show ?thesis using op snoc.IH
      by (simp add: set_marks_snoc)
  qed
qed

lemma presence_flags_perform: "presence_flags s \<Longrightarrow> presence_flags (perform s c)"
proof (cases c)
  case (Add_student a b d)
  assume "presence_flags s"
  then show ?thesis using Add_student
    by (auto simp: add_student_to_db_def presence_flags_def Let_def)
next
  case (Update_student i a b d)
  assume "presence_flags s"
  then show ?thesis using Update_student
    by (auto simp: update_student_in_db_def presence_flags_def)
next
  case (Delete_student i)
  assume "presence_flags s"
  then show ?thesis using Delete_student
    by (simp add: delete_student_from_db_def presence_flags_def list_all_iff)
next
  case (Add_subject n)
  assume "presence_flags s"
  then show ?thesis using Add_subject
    by (simp add: add_subject_to_db_def presence_flags_def Let_def)
next
  case (Set_mark st sb v)
  assume "presence_flags s"
  then show ?thesis using Set_mark
    by (simp add: set_mark_in_db_def presence_flags_def Let_def split: option.splits)
next
  case (Delete_marks_for_subject i)
  assume "presence_flags s"
  then show ?thesis using Delete_marks_for_subject
    by (simp add: delete_marks_for_subject_def presence_flags_def)
next
  case (Add_attendance i d p)
  assume "presence_flags s"
  then show ?thesis using Add_attendance
    by (simp add: add_attendance_to_db_def presence_flags_def Let_def)
next
  case (Edit_subject subjects sel answer)
  assume "presence_flags s"
  then show ?thesis using Edit_subject
    by (auto simp: edit_subject_def rename_subject_sql_def presence_flags_def
        split: list.splits option.splits prod.splits sum.splits db_error.splits)
next
  case (Delete_subject subjects sel confirmed)
  assume "presence_flags s"
  then show ?thesis using Delete_subject
    by (auto simp: delete_subject_def presence_flags_def split: list.splits prod.splits)
qed

lemma presence_flags_foldl: "presence_flags s \<Longrightarrow> presence_flags (foldl perform s cs)"
  by (induction cs arbitrary: s) (simp_all add: presence_flags_perform)

lemma presence_flags_run: "presence_flags (run cs)"
  unfolding run_def by (rule presence_flags_foldl) (simp add: presence_flags_def init_db_def)

lemma presence_of_flags:
  "presence_flags s \<Longrightarrow> list_all (\<lambda>p. p = 0 \<or> p = 1) (presence_of s student)"
  by (simp add: presence_flags_def presence_of_def list_all_iff)

lemma sum_flags: "list_all (\<lambda>p. p = 0 \<or> p = (1::int)) flags \<Longrightarrow>
  sum_list flags = int (length (filter (\<lambda>p. p = 1) flags))"
  by (induction flags) auto

lemma attendance_percent_presence:
  "get_attendance_percent_from_db s student =
     (if presence_of s student = [] then 0
      else py_round (of_int (sum_list (presence_of s student)) /
                     of_nat (length (presence_of s student)) * 100) 2)"
  by (simp add: get_attendance_percent_from_db_def presence_of_def Let_def)

lemma attendance_percent_bounds:
  assumes "presence_flags s"
  shows "0 \<le> get_attendance_percent_from_db s student \<and>
         get_attendance_percent_from_db s student \<le> 100"
proof (cases "presence_of s student = []")
  case True
  then show ?thesis by (simp add: attendance_percent_presence)
next
  case False
  let ?fl = "presence_of s student"
  have all: "list_all (\<lambda>p. p = 0 \<or> p = 1) ?fl" using assms by (rule presence_of_flags)
  then have sum: "sum_list ?fl = int (length (filter (\<lambda>p. p = 1) ?fl))" by (rule sum_flags)
  have le: "length (filter (\<lambda>p. p = 1) ?fl) \<le> length ?fl" by simp
  have pos: "(0::rat) < of_nat (length ?fl)" using False by simp
  let ?q = "(of_int (sum_list ?fl) :: rat) / of_nat (length ?fl) * 100"
  have "(of_int (sum_list ?fl) :: rat) \<le> of_nat (length ?fl)"
    using sum le by simp
  then have "(of_int (sum_list ?fl) :: rat) / of_nat (length ?fl) \<le> 1"
    using pos by (simp add: divide_le_eq)
  then have hi: "?q \<le> 100" using pos by (simp add: divide_le_eq)
  have "(0::rat) \<le> of_int (sum_list ?fl)" using sum by simp
  then have lo: "0 \<le> ?q" using pos by (simp add: le_divide_eq)
  from lo hi have "0 \<le> py_round ?q 2 \<and> py_round ?q 2 \<le> 100" by (rule py_round_bounds)
  then show ?thesis using False by (simp add: attendance_percent_presence)
qed

lemma update_identity:
  "\<not> list_ex (\<lambda>r. s_id r = db_id) (tbl_students s) \<Longrightarrow>
   map (\<lambda>r. if s_id r = db_id
             then r\<lparr>s_student_id := student_id, s_name := name, s_klass := klass\<rparr>
             else r) (tbl_students s) = tbl_students s"
  by (induction "tbl_students s" arbitrary: s) (auto simp: list_ex_iff map_idI)

lemmas run_simps = run_def init_db_def next_rowid_def Let_def add_student_to_db_def
  add_subject_to_db_def add_attendance_to_db_def set_mark_in_db_def


text \<open>
  Claim C6. After any history of calls the marks table holds at most one row for a
  (student, subject) pair; after any further run of set-mark calls it still does, and the
  row of a pair holds the value the last of those calls gave it (a pair none of them names
  keeps what it had); setting the mark of a pair that has a row adds no row.
\<close>

theorem one_mark_per_pair:
  "length (marks_of (run cs) student subject) \<le> 1 \<and>
   marks_of (set_marks (run cs) ops) student subject =
     (case last_set ops student subject of
        Some v \<Rightarrow> [v]
      | None \<Rightarrow> marks_of (run cs) student subject) \<and>
   length (marks_of (set_marks (run cs) ops) student subject) \<le> 1 \<and>
   (marks_of (run cs) student subject \<noteq> [] \<longrightarrow>
      length (tbl_marks (set_mark_in_db (run cs) student subject v)) = length (tbl_marks (run cs)))"
proof (intro conjI impI)
  have u: "marks_unique (run cs)" by (rule marks_unique_run)
  then show "length (marks_of (run cs) student subject) \<le> 1" by (rule marks_of_at_most_one)
  from u show "marks_of (set_marks (run cs) ops) student subject =
     (case last_set ops student subject of
        Some v \<Rightarrow> [v]
      | None \<Rightarrow> marks_of (run cs) student subject)"
    by (rule marks_of_set_marks)
  from u have "marks_unique (set_marks (run cs) ops)" by (rule marks_unique_set_marks)
  then show "length (marks_of (set_marks (run cs) ops) student subject) \<le> 1"
    by (rule marks_of_at_most_one)
next
  assume "marks_of (run cs) student subject \<noteq> []"
  then show "length (tbl_marks (set_mark_in_db (run cs) student subject v)) =
             length (tbl_marks (run cs))"
    by (rule set_mark_overwrites)
qed

theorem one_mark_per_pair_witness:
  "marks_of (run [Set_mark 1 1 40]) 1 1 \<noteq> [] \<and>
   length (tbl_marks (set_mark_in_db (run [Set_mark 1 1 40]) 1 1 55)) = 1 \<and>
   marks_of (set_marks (run [Set_mark 1 1 40]) [(1, 1, 55), (1, 2, 70), (1, 1, 65)]) 1 1 = [65]"
proof -
  have h: "marks_of (run [Set_mark 1 1 40]) 1 1 \<noteq> []"
    by (simp add: run_simps marks_of_def)
  have l: "length (tbl_marks (run [Set_mark 1 1 40])) = 1"
    by (simp add: run_simps)
  have s: "last_set [(1, 1, 55), (1, 2, 70), (1, 1, 65)] 1 1 = Some 65"
    by (simp add: last_set_def)
  from one_mark_per_pair [of "[Set_mark 1 1 40]" 1 1 "[(1, 1, 55), (1, 2, 70), (1, 1, 65)]" 55]
  show ?thesis using h l s by simp
qed

text \<open>
  Claim C7. Deleting a student leaves no student row with that id, no mark and no
  attendance row that refers to it, and removes no other mark or attendance row.
\<close>

theorem delete_student_cascades:
  "\<not> list_ex (\<lambda>r. s_id r = db_id) (tbl_students (delete_student_from_db s db_id)) \<and>
   \<not> list_ex (\<lambda>r. m_student_db_id r = db_id) (tbl_marks (delete_student_from_db s db_id)) \<and>
   \<not> list_ex (\<lambda>r. a_student_db_id r = db_id) (tbl_attendance (delete_student_from_db s db_id)) \<and>
   marks_of (delete_student_from_db s db_id) db_id subject = [] \<and>
   presence_of (delete_student_from_db s db_id) db_id = [] \<and>
   set (tbl_students (delete_student_from_db s db_id)) =
     set (tbl_students s) - {r. s_id r = db_id} \<and>
   set (tbl_marks (delete_student_from_db s db_id)) =
     set (tbl_marks s) - {r. m_student_db_id r = db_id} \<and>
   set (tbl_attendance (delete_student_from_db s db_id)) =
     set (tbl_attendance s) - {r. a_student_db_id r = db_id}"
  by (auto simp: delete_student_from_db_def list_ex_iff marks_of_def presence_of_def
      filter_empty_conv)

text \<open>
  Claim C8. Renaming a subject that exists to a name another subject has raises
  sqlite3.IntegrityError (the duplicate-key error of this program), which \<^verbatim>\<open>edit_subject\<close>
  reports as "Subject name already exists."; the database, and with it the subject's old
  name, is as it was before.
\<close>

theorem rename_to_used_name_fails:
  assumes "index < length subjects"
    and "subjects ! index = (subj_id, old_name)"
    and "list_ex (\<lambda>r. sj_id r = subj_id) (tbl_subjects s)"
    and "list_ex (\<lambda>r. sj_id r \<noteq> subj_id \<and> sj_name r = new_name) (tbl_subjects s)"
    and "new_name \<noteq> []"
  shows "rename_subject_sql s new_name subj_id = Inl IntegrityError \<and>
         edit_subject s subjects (index # others) (Some new_name) =
           (Showerror ''Subject name already exists.'', s)"
proof -
  have r: "rename_subject_sql s new_name subj_id = Inl IntegrityError"
    using assms(3,4) by (simp add: rename_subject_sql_def)
  then show ?thesis using assms(1,2,5) by (simp add: edit_subject_def)
qed

theorem rename_to_used_name_fails_witness:
  "edit_subject (run [Add_subject ''Math'', Add_subject ''Science''])
     [(1, ''Math''), (2, ''Science'')] [1] (Some ''Math'') =
     (Showerror ''Subject name already exists.'', run [Add_subject ''Math'', Add_subject ''Science'']) \<and>
   map sj_name (tbl_subjects (run [Add_subject ''Math'', Add_subject ''Science''])) =
     [''Math'', ''Science'']"
proof -
  let ?s = "run [Add_subject ''Math'', Add_subject ''Science'']"
  have t: "tbl_subjects ?s = [\<lparr>sj_id = 1, sj_name = ''Math''\<rparr>, \<lparr>sj_id = 2, sj_name = ''Science''\<rparr>]"
    by (simp add: run_simps)
  have h1: "1 < length [(1::int, ''Math''), (2, ''Science'')]" by simp
  have h2: "[(1::int, ''Math''), (2, ''Science'')] ! 1 = (2, ''Science'')" by simp
  have h3: "list_ex (\<lambda>r. sj_id r = 2) (tbl_subjects ?s)" by (simp add: t)
  have h4: "list_ex (\<lambda>r. sj_id r \<noteq> 2 \<and> sj_name r = ''Math'') (tbl_subjects ?s)" by (simp add: t)
  have h5: "''Math'' \<noteq> []" by simp
  from rename_to_used_name_fails [OF h1 h2 h3 h4 h5, of "[]"] t show ?thesis by simp
qed

text \<open>
  Claim C9. As stated (an update of an id that no row has fails with a not-found error),
  the claim does not hold: with one student of id 1 in the table, updating id 7 returns
  normally and leaves the database as it was.
\<close>

theorem update_missing_student_counterexample:
  "map s_id (tbl_students (run [Add_student ''S1'' ''Ann'' ''10A''])) = [1] \<and>
   update_student_in_db (run [Add_student ''S1'' ''Ann'' ''10A'']) 7 ''S7'' ''Zed'' ''10B'' =
     Inr (run [Add_student ''S1'' ''Ann'' ''10A''])"
  by (simp add: run_simps update_student_in_db_def)

text \<open>
  Claim C9, as amended. \<^verbatim>\<open>update_student_in_db\<close> on an id that no student row has returns
  normally, raises nothing and leaves the database unchanged.
\<close>

theorem update_missing_student_is_silent:
  assumes "\<not> list_ex (\<lambda>r. s_id r = db_id) (tbl_students s)"
  shows "update_student_in_db s db_id student_id name klass = Inr s"
proof -
  have "map (\<lambda>r. if s_id r = db_id
                  then r\<lparr>s_student_id := student_id, s_name := name, s_klass := klass\<rparr>
                  else r) (tbl_students s) = tbl_students s"
    using assms by (rule update_identity)
  then show ?thesis using assms by (simp add: update_student_in_db_def)
qed

theorem update_missing_student_is_silent_witness:
  "\<not> list_ex (\<lambda>r. s_id r = 3) (tbl_students init_db) \<and>
   update_student_in_db init_db 3 ''S3'' ''Cy'' ''9C'' = Inr init_db"
proof -
  have h: "\<not> list_ex (\<lambda>r. s_id r = 3) (tbl_students init_db)" by (simp add: init_db_def)
  from update_missing_student_is_silent [OF h] h show ?thesis by simp
qed

text \<open>
  Claim C10. After any history of calls every attendance row has 0 or 1 in \<^verbatim>\<open>present\<close>,
  since \<^verbatim>\<open>add_attendance_to_db\<close> writes 1 for a truthy argument and 0 for any other; and the
  attendance percentage of every student lies in [0, 100].
\<close>

theorem presence_is_zero_or_one:
  "list_all (\<lambda>r. a_present r = 0 \<or> a_present r = 1) (tbl_attendance (run cs)) \<and>
   a_present (last (tbl_attendance (add_attendance_to_db s student date_str present))) =
     (if truthy present then 1 else 0) \<and>
   0 \<le> get_attendance_percent_from_db (run cs) student \<and>
   get_attendance_percent_from_db (run cs) student \<le> 100"
proof -
  have f: "presence_flags (run cs)" by (rule presence_flags_run)
  then have "0 \<le> get_attendance_percent_from_db (run cs) student \<and>
             get_attendance_percent_from_db (run cs) student \<le> 100"
    by (rule attendance_percent_bounds)
  moreover have "list_all (\<lambda>r. a_present r = 0 \<or> a_present r = 1) (tbl_attendance (run cs))"
    using f by (simp add: presence_flags_def)
  moreover have "a_present (last (tbl_attendance (add_attendance_to_db s student date_str present))) =
     (if truthy present then 1 else 0)"
    by (simp add: add_attendance_to_db_def Let_def)
  ultimately show ?thesis by simp
qed

end
